theory Spec2Isabelle
  imports Main "HOL-Library.Sublist" "HOL-Library.AList"
begin

section \<open>Python values\<close>

text \<open>
  The tools receive a Python \<^verbatim>\<open>dict\<close> decoded from the model's JSON arguments, so a
  value under a key may be of any JSON type. Numbers are integers here (JSON floats are
  left out); \<^verbatim>\<open>bool\<close> is a subclass of \<^verbatim>\<open>int\<close> in Python, which \<open>py_eq\<close> follows.
  A character is a code point below 256.
\<close>

datatype pyval =
    PNone
  | PBool bool
  | PInt int
  | PStr string
  | PList "pyval list"
  | PDict "(string \<times> pyval) list"

type_synonym dict = "(string \<times> pyval) list"

text \<open>\<^verbatim>\<open>d.get(k)\<close> and \<^verbatim>\<open>d.get(k, default)\<close>.\<close>

definition dict_get_default :: "dict \<Rightarrow> string \<Rightarrow> pyval \<Rightarrow> pyval" where
  "dict_get_default d k dflt = (case map_of d k of None \<Rightarrow> dflt | Some v \<Rightarrow> v)"

definition dict_get :: "dict \<Rightarrow> string \<Rightarrow> pyval" where
  "dict_get d k = dict_get_default d k PNone"

text \<open>Truth value of an object, as \<^verbatim>\<open>not x\<close> and \<^verbatim>\<open>if x:\<close> test it.\<close>

fun truthy :: "pyval \<Rightarrow> bool" where
  "truthy PNone = False"
| "truthy (PBool b) = b"
| "truthy (PInt i) = (i \<noteq> 0)"
| "truthy (PStr s) = (s \<noteq> [])"
| "truthy (PList xs) = (xs \<noteq> [])"
| "truthy (PDict kvs) = (kvs \<noteq> [])"

text \<open>
  Python's \<^verbatim>\<open>==\<close> on these values: \<^verbatim>\<open>True == 1\<close>, lists compare elementwise, dicts
  compare as mappings (the keys of a dict are distinct).
\<close>

fun py_eq :: "pyval \<Rightarrow> pyval \<Rightarrow> bool" where
  "py_eq PNone PNone = True"
| "py_eq (PBool a) (PBool b) = (a = b)"
| "py_eq (PBool a) (PInt b) = ((if a then 1 else 0) = b)"
| "py_eq (PInt a) (PBool b) = (a = (if b then 1 else 0))"
| "py_eq (PInt a) (PInt b) = (a = b)"
| "py_eq (PStr a) (PStr b) = (a = b)"
| "py_eq (PList xs) (PList ys) = list_all2 py_eq xs ys"
| "py_eq (PDict xs) (PDict ys) =
     (set (map fst xs) = set (map fst ys) \<and>
      list_all (\<lambda>(k, v). list_all (\<lambda>(k', v'). k = k' \<longrightarrow> py_eq v v') ys) xs)"
| "py_eq _ _ = False"

datatype exn =
    TypeError
  | ValueError
  | FileNotFoundError
  | FileExistsError
  | NotADirectoryError
  | IsADirectoryError

text \<open>The operations on strings that \<^verbatim>\<open>edit_file_tool\<close> applies to values of any type.\<close>

text \<open>\<^verbatim>\<open>x in s\<close> for a string \<open>s\<close>: a substring test; a left operand that is not a string
  raises.\<close>

fun py_in :: "pyval \<Rightarrow> string \<Rightarrow> exn + bool" where
  "py_in (PStr x) s = Inr (sublist x s)"
| "py_in _ s = Inl TypeError"

text \<open>\<^verbatim>\<open>s + x\<close> for a string \<open>s\<close>.\<close>

fun py_add :: "string \<Rightarrow> pyval \<Rightarrow> exn + string" where
  "py_add s (PStr x) = Inr (s @ x)"
| "py_add s _ = Inl TypeError"

text \<open>
  \<^verbatim>\<open>s.replace(old, new)\<close>: every occurrence of \<open>old\<close>, found from left to right without
  overlap, is replaced; an empty \<open>old\<close> matches before every character and at the end.
\<close>

function replace :: "string \<Rightarrow> string \<Rightarrow> string \<Rightarrow> string" where
  "replace old new s =
     (if old = [] then new @ concat (map (\<lambda>c. c # new) s)
      else if s = [] then []
      else if prefix old s then new @ replace old new (drop (length old) s)
      else hd s # replace old new (tl s))"
  by pat_completeness auto
termination
  by (relation "measure (\<lambda>(old, new, s). length s)") auto

declare replace.simps [simp del]

fun py_replace :: "string \<Rightarrow> pyval \<Rightarrow> pyval \<Rightarrow> exn + string" where
  "py_replace s (PStr old) (PStr new) = Inr (replace old new s)"
| "py_replace s _ _ = Inl TypeError"

section \<open>Paths\<close>

text \<open>
  A resolved path is the list of its components below the root; \<open>[]\<close> is the root.
  \<^verbatim>\<open>Path(x)\<close> accepts a string only. \<^verbatim>\<open>Path(s).resolve()\<close> makes the path absolute
  from the working directory and removes empty components, \<^verbatim>\<open>.\<close> and \<^verbatim>\<open>..\<close>
  (the parent of the root is the root); a string with a NUL character raises
  \<^verbatim>\<open>ValueError\<close>. There are no symbolic links in this model, so resolution reads the
  path's text only.
\<close>

type_synonym path = "string list"

fun Path :: "pyval \<Rightarrow> exn + string" where
  "Path (PStr s) = Inr s"
| "Path _ = Inl TypeError"

text \<open>\<^verbatim>\<open>s.split('/')\<close>.\<close>

fun split_slash :: "string \<Rightarrow> string list" where
  "split_slash [] = [[]]"
| "split_slash (c # cs) =
     (if c = CHR ''/'' then [] # split_slash cs
      else (case split_slash cs of [] \<Rightarrow> [[c]] | h # t \<Rightarrow> (c # h) # t))"

definition is_absolute :: "string \<Rightarrow> bool" where
  "is_absolute s = (case s of [] \<Rightarrow> False | c # _ \<Rightarrow> c = CHR ''/'')"

definition step :: "path \<Rightarrow> string \<Rightarrow> path" where
  "step acc c =
     (if c = [] \<or> c = ''.'' then acc
      else if c = ''..'' then butlast acc
      else acc @ [c])"

definition resolve :: "path \<Rightarrow> string \<Rightarrow> exn + path" where
  "resolve cwd s =
     (if CHR 0x00 \<in> set s then Inl ValueError
      else Inr (foldl step (if is_absolute s then [] else cwd) (split_slash s)))"

text \<open>\<^verbatim>\<open>str(p)\<close> of a resolved path.\<close>

definition path_text :: "path \<Rightarrow> string" where
  "path_text p = (if p = [] then ''/'' else concat (map (\<lambda>c. CHR ''/'' # c) p))"

text \<open>
  The confinement test of the three tools,
  \<^verbatim>\<open>str(file_path).startswith(str(Path.cwd().resolve()))\<close>: a test on the text of the
  two paths.
\<close>

definition startswith_cwd :: "path \<Rightarrow> path \<Rightarrow> bool" where
  "startswith_cwd cwd p = prefix (path_text cwd) (path_text p)"

text \<open>
  What the specification means by a path within the working directory: the working
  directory itself or a location below it.
\<close>

definition within :: "path \<Rightarrow> path \<Rightarrow> bool" where
  "within cwd p = prefix cwd p"

section \<open>The file system\<close>

text \<open>
  A tree of directories and text files; a file system is the list of the root
  directory's entries. Operations fail the way the operating system does for a missing
  component (\<open>FileNotFoundError\<close>) and for a component below a regular file
  (\<open>NotADirectoryError\<close>); permissions and encodings are not modelled, so reading and
  writing an existing regular file succeeds. Every call the tools make to the file
  system is recorded in \<open>oplog\<close>.
\<close>

datatype node = File string | Dir "(string \<times> node) list"

type_synonym entries = "(string \<times> node) list"

datatype fs_op =
    OpIsFile path
  | OpExists path
  | OpIsDir path
  | OpIterdir path
  | OpRead path
  | OpWrite path
  | OpMkdir path

record world =
  files :: entries
  oplog :: "fs_op list"

fun lookup :: "entries \<Rightarrow> path \<Rightarrow> exn + node" where
  "lookup es [] = Inr (Dir es)"
| "lookup es (c # cs) =
     (case map_of es c of
        None \<Rightarrow> Inl FileNotFoundError
      | Some (File t) \<Rightarrow> (if cs = [] then Inr (File t) else Inl NotADirectoryError)
      | Some (Dir es') \<Rightarrow> lookup es' cs)"

text \<open>Store a node at a path whose parent is an existing directory.\<close>

fun put :: "entries \<Rightarrow> path \<Rightarrow> node \<Rightarrow> exn + entries" where
  "put es [] n = Inl IsADirectoryError"
| "put es [c] n = Inr (AList.update c n es)"
| "put es (c # cs) n =
     (case map_of es c of
        None \<Rightarrow> Inl FileNotFoundError
      | Some (File t) \<Rightarrow> Inl NotADirectoryError
      | Some (Dir es') \<Rightarrow>
          (case put es' cs n of
             Inl e \<Rightarrow> Inl e
           | Inr es'' \<Rightarrow> Inr (AList.update c (Dir es'') es)))"

definition exists_at :: "entries \<Rightarrow> path \<Rightarrow> bool" where
  "exists_at es p = (case lookup es p of Inr _ \<Rightarrow> True | Inl _ \<Rightarrow> False)"

definition is_file_at :: "entries \<Rightarrow> path \<Rightarrow> bool" where
  "is_file_at es p = (case lookup es p of Inr (File _) \<Rightarrow> True | _ \<Rightarrow> False)"

definition is_dir_at :: "entries \<Rightarrow> path \<Rightarrow> bool" where
  "is_dir_at es p = (case lookup es p of Inr (Dir _) \<Rightarrow> True | _ \<Rightarrow> False)"

text \<open>\<^verbatim>\<open>os.mkdir(p)\<close>.\<close>

definition os_mkdir :: "entries \<Rightarrow> path \<Rightarrow> exn + entries" where
  "os_mkdir es p =
     (case lookup es p of
        Inr _ \<Rightarrow> Inl FileExistsError
      | Inl e \<Rightarrow> if e = FileNotFoundError then put es p (Dir []) else Inl e)"

text \<open>
  \<^verbatim>\<open>Path.mkdir(parents=False, exist_ok=True)\<close> and \<^verbatim>\<open>Path.mkdir(parents=True, exist_ok=True)\<close>, as pathlib
  writes them: try \<^verbatim>\<open>os.mkdir\<close>; on \<^verbatim>\<open>FileNotFoundError\<close> make the parent first
  (unless the path is its own parent) and try again; on any other \<^verbatim>\<open>OSError\<close>
  succeed only if the path is a directory.
\<close>

definition mkdir_exist_ok :: "path \<Rightarrow> entries \<Rightarrow> exn + entries" where
  "mkdir_exist_ok p es =
     (case os_mkdir es p of
        Inr es' \<Rightarrow> Inr es'
      | Inl e \<Rightarrow>
          if e = FileNotFoundError then Inl e
          else if is_dir_at es p then Inr es else Inl e)"

function mkdir_parents :: "path \<Rightarrow> entries \<Rightarrow> exn + entries" where
  "mkdir_parents p es =
     (case os_mkdir es p of
        Inr es' \<Rightarrow> Inr es'
      | Inl e \<Rightarrow>
          if e = FileNotFoundError then
            (if butlast p = p then Inl e
             else (case mkdir_parents (butlast p) es of
                     Inl e' \<Rightarrow> Inl e'
                   | Inr es' \<Rightarrow> mkdir_exist_ok p es'))
          else if is_dir_at es p then Inr es else Inl e)"
  by pat_completeness auto
termination
  by (relation "measure (\<lambda>(p, es). length p)") (auto intro!: diff_Suc_less)

declare mkdir_parents.simps [simp del]

subsection \<open>The calls the tools make\<close>

definition logged :: "fs_op \<Rightarrow> world \<Rightarrow> world" where
  "logged op w = w\<lparr>oplog := oplog w @ [op]\<rparr>"

definition path_exists :: "path \<Rightarrow> world \<Rightarrow> bool \<times> world" where
  "path_exists p w = (exists_at (files w) p, logged (OpExists p) w)"

definition path_is_file :: "path \<Rightarrow> world \<Rightarrow> bool \<times> world" where
  "path_is_file p w = (is_file_at (files w) p, logged (OpIsFile p) w)"

definition path_is_dir :: "path \<Rightarrow> world \<Rightarrow> bool \<times> world" where
  "path_is_dir p w = (is_dir_at (files w) p, logged (OpIsDir p) w)"

text \<open>\<^verbatim>\<open>with open(p, "r", encoding="utf-8") as f: content = f.read()\<close>.\<close>

definition read_text :: "path \<Rightarrow> world \<Rightarrow> (exn + string) \<times> world" where
  "read_text p w =
     ((case lookup (files w) p of
         Inr (File t) \<Rightarrow> Inr t
       | Inr (Dir es) \<Rightarrow> Inl IsADirectoryError
       | Inl e \<Rightarrow> Inl e),
      logged (OpRead p) w)"

text \<open>
  \<^verbatim>\<open>with open(p, "w", encoding="utf-8") as f: f.write(content)\<close>: opening creates or
  empties the file; writing a value that is not a string raises after that.
\<close>

definition open_w :: "entries \<Rightarrow> path \<Rightarrow> exn + entries" where
  "open_w es p =
     (case lookup es p of
        Inr (Dir es') \<Rightarrow> Inl IsADirectoryError
      | Inr (File t) \<Rightarrow> put es p (File [])
      | Inl e \<Rightarrow> if e = FileNotFoundError then put es p (File []) else Inl e)"

definition write_text :: "path \<Rightarrow> pyval \<Rightarrow> world \<Rightarrow> (exn + unit) \<times> world" where
  "write_text p content w =
     (let w1 = logged (OpWrite p) w in
      case open_w (files w1) p of
        Inl e \<Rightarrow> (Inl e, w1)
      | Inr es \<Rightarrow>
          (case content of
             PStr t \<Rightarrow>
               (case put es p (File t) of
                  Inl e \<Rightarrow> (Inl e, w1\<lparr>files := es\<rparr>)
                | Inr es' \<Rightarrow> (Inr (), w1\<lparr>files := es'\<rparr>))
           | _ \<Rightarrow> (Inl TypeError, w1\<lparr>files := es\<rparr>)))"

text \<open>\<^verbatim>\<open>p.mkdir(parents=True, exist_ok=True)\<close>.\<close>

definition mkdir :: "path \<Rightarrow> world \<Rightarrow> (exn + unit) \<times> world" where
  "mkdir p w =
     (let w1 = logged (OpMkdir p) w in
      case mkdir_parents p (files w1) of
        Inl e \<Rightarrow> (Inl e, w1)
      | Inr es \<Rightarrow> (Inr (), w1\<lparr>files := es\<rparr>))"

text \<open>
  \<^verbatim>\<open>base.iterdir()\<close> with \<^verbatim>\<open>item.name\<close> and \<^verbatim>\<open>item.is_dir()\<close> for each item, in the
  order the directory holds them.
\<close>

definition iterdir :: "path \<Rightarrow> world \<Rightarrow> (exn + string list) \<times> world" where
  "iterdir p w =
     ((case lookup (files w) p of
         Inr (Dir es) \<Rightarrow> Inr (map fst es)
       | Inr (File t) \<Rightarrow> Inl NotADirectoryError
       | Inl e \<Rightarrow> Inl e),
      logged (OpIterdir p) w)"

section \<open>The tools\<close>

text \<open>
  A tool returns a string: the success text, or \<^verbatim>\<open>json.dumps({"error": message})\<close>.
  \<open>reply\<close> keeps the two apart and \<open>err\<close> has one constructor for each error message
  of the source, with the values the message is formatted from. A tool call yields
  \<open>Inr\<close> of its reply, or \<open>Inl\<close> of an exception that leaves the function.
\<close>

datatype err =
    PathRequired
  | AccessNotAllowed pyval
  | NotARegularFile pyval
  | ErrorReading pyval exn
  | PathNotFound pyval
  | ErrorListing pyval exn
  | AccessNotAllowedForCreation pyval
  | FailedToCreate pyval exn
  | PathAndNewStrRequired
  | MustBeDifferent
  | NotFoundOldStrProvided pyval
  | ExistsButNotAFile pyval
  | OldStrNotFound pyval
  | ErrorEditing pyval exn
  | ToolNotFound string
  | AgentFailedToExecute string exn
  | ArgumentsNotADict string pyval

datatype reply =
    Content string
  | Listing "string list"
  | SuccessfullyCreated pyval
  | OK
  | Error err

type_synonym tool_result = "(exn + reply) \<times> world"

subsection \<open>\<^verbatim>\<open>read_file_tool\<close>\<close>

definition read_file_try :: "path \<Rightarrow> pyval \<Rightarrow> world \<Rightarrow> tool_result" where
  "read_file_try cwd path_str w =
     (case Path path_str of
        Inl e \<Rightarrow> (Inl e, w)
      | Inr s \<Rightarrow>
          (case resolve cwd s of
             Inl e \<Rightarrow> (Inl e, w)
           | Inr file_path \<Rightarrow>
               if \<not> startswith_cwd cwd file_path
               then (Inr (Error (AccessNotAllowed path_str)), w)
               else (case path_is_file file_path w of
                       (isf, w1) \<Rightarrow>
                         if \<not> isf then (Inr (Error (NotARegularFile path_str)), w1)
                         else (case read_text file_path w1 of
                                 (Inl e, w2) \<Rightarrow> (Inl e, w2)
                               | (Inr content, w2) \<Rightarrow> (Inr (Content content), w2)))))"

definition read_file_tool :: "path \<Rightarrow> dict \<Rightarrow> world \<Rightarrow> tool_result" where
  "read_file_tool cwd input_data w =
     (let path_str = dict_get input_data ''path'' in
      if \<not> truthy path_str then (Inr (Error PathRequired), w)
      else (case read_file_try cwd path_str w of
              (Inl e, w') \<Rightarrow> (Inr (Error (ErrorReading path_str e)), w')
            | (Inr r, w') \<Rightarrow> (Inr r, w')))"

subsection \<open>\<^verbatim>\<open>list_files_tool\<close>\<close>

fun list_entries :: "path \<Rightarrow> string list \<Rightarrow> world \<Rightarrow> string list \<times> world" where
  "list_entries base [] w = ([], w)"
| "list_entries base (name # names) w =
     (case path_is_dir (base @ [name]) w of
        (d, w1) \<Rightarrow>
          (case list_entries base names w1 of
             (files_and_dirs, w2) \<Rightarrow>
               ((if d then name @ ''/'' else name) # files_and_dirs, w2)))"

definition list_files_try :: "path \<Rightarrow> pyval \<Rightarrow> world \<Rightarrow> tool_result" where
  "list_files_try cwd path_str w =
     (case Path path_str of
        Inl e \<Rightarrow> (Inl e, w)
      | Inr s \<Rightarrow>
          (case resolve cwd s of
             Inl e \<Rightarrow> (Inl e, w)
           | Inr base_path \<Rightarrow>
               if \<not> startswith_cwd cwd base_path
               then (Inr (Error (AccessNotAllowed path_str)), w)
               else (case path_exists base_path w of
                       (ex, w1) \<Rightarrow>
                         if \<not> ex then (Inr (Error (PathNotFound path_str)), w1)
                         else (case iterdir base_path w1 of
                                 (Inl e, w2) \<Rightarrow> (Inl e, w2)
                               | (Inr names, w2) \<Rightarrow>
                                   (case list_entries base_path names w2 of
                                      (files_and_dirs, w3) \<Rightarrow>
                                        (Inr (Listing files_and_dirs), w3))))))"

definition list_files_tool :: "path \<Rightarrow> dict \<Rightarrow> world \<Rightarrow> tool_result" where
  "list_files_tool cwd input_data w =
     (let path_str = dict_get_default input_data ''path'' (PStr ''.'') in
      case list_files_try cwd path_str w of
        (Inl e, w') \<Rightarrow> (Inr (Error (ErrorListing path_str e)), w')
      | (Inr r, w') \<Rightarrow> (Inr r, w'))"

subsection \<open>\<^verbatim>\<open>_create_new_file\<close> and \<^verbatim>\<open>edit_file_tool\<close>\<close>

definition create_new_file_try :: "path \<Rightarrow> pyval \<Rightarrow> pyval \<Rightarrow> world \<Rightarrow> tool_result" where
  "create_new_file_try cwd file_path_str content w =
     (case Path file_path_str of
        Inl e \<Rightarrow> (Inl e, w)
      | Inr s \<Rightarrow>
          (case resolve cwd s of
             Inl e \<Rightarrow> (Inl e, w)
           | Inr p \<Rightarrow>
               if \<not> startswith_cwd cwd p
               then (Inr (Error (AccessNotAllowedForCreation file_path_str)), w)
               else (case mkdir (butlast p) w of
                       (Inl e, w1) \<Rightarrow> (Inl e, w1)
                     | (Inr u, w1) \<Rightarrow>
                         (case write_text p content w1 of
                            (Inl e, w2) \<Rightarrow> (Inl e, w2)
                          | (Inr u', w2) \<Rightarrow>
                              (Inr (SuccessfullyCreated file_path_str), w2)))))"

definition create_new_file :: "path \<Rightarrow> pyval \<Rightarrow> pyval \<Rightarrow> world \<Rightarrow> reply \<times> world" where
  "create_new_file cwd file_path_str content w =
     (case create_new_file_try cwd file_path_str content w of
        (Inl e, w') \<Rightarrow> (Error (FailedToCreate file_path_str e), w')
      | (Inr r, w') \<Rightarrow> (r, w'))"

definition edit_file_try ::
  "path \<Rightarrow> pyval \<Rightarrow> pyval \<Rightarrow> pyval \<Rightarrow> path \<Rightarrow> world \<Rightarrow> tool_result" where
  "edit_file_try cwd path_str old_str new_str file_path w =
     (case path_exists file_path w of
        (ex, w1) \<Rightarrow>
          if \<not> ex then
            (if py_eq old_str (PStr []) \<or> old_str = PNone
             then (case create_new_file cwd path_str new_str w1 of (r, w2) \<Rightarrow> (Inr r, w2))
             else (Inr (Error (NotFoundOldStrProvided path_str)), w1))
          else (case path_is_file file_path w1 of
                  (isf, w2) \<Rightarrow>
                    if \<not> isf then (Inr (Error (ExistsButNotAFile path_str)), w2)
                    else (case read_text file_path w2 of
                            (Inl e, w3) \<Rightarrow> (Inl e, w3)
                          | (Inr original_content, w3) \<Rightarrow>
                              (case py_in old_str original_content of
                                 Inl e \<Rightarrow> (Inl e, w3)
                               | Inr found \<Rightarrow>
                                   if \<not> found
                                   then (Inr (Error (OldStrNotFound path_str)), w3)
                                   else (case (if old_str = PNone \<or> py_eq old_str (PStr [])
                                               then py_add original_content new_str
                                               else py_replace original_content old_str new_str) of
                                           Inl e \<Rightarrow> (Inl e, w3)
                                         | Inr modified_content \<Rightarrow>
                                             (case write_text file_path (PStr modified_content) w3 of
                                                (Inl e, w4) \<Rightarrow> (Inl e, w4)
                                              | (Inr u, w4) \<Rightarrow> (Inr OK, w4)))))))"

definition edit_file_tool :: "path \<Rightarrow> dict \<Rightarrow> world \<Rightarrow> tool_result" where
  "edit_file_tool cwd input_data w =
     (let path_str = dict_get input_data ''path'';
          old_str = dict_get input_data ''old_str'';
          new_str = dict_get input_data ''new_str''
      in
      if path_str = PNone \<or> new_str = PNone
      then (Inr (Error PathAndNewStrRequired), w)
      else if old_str \<noteq> PNone \<and> py_eq old_str new_str
      then (Inr (Error MustBeDifferent), w)
      else (case Path path_str of
              Inl e \<Rightarrow> (Inl e, w)
            | Inr s \<Rightarrow>
                (case resolve cwd s of
                   Inl e \<Rightarrow> (Inl e, w)
                 | Inr file_path \<Rightarrow>
                     if \<not> startswith_cwd cwd file_path
                     then (Inr (Error (AccessNotAllowed path_str)), w)
                     else (case edit_file_try cwd path_str old_str new_str file_path w of
                             (Inl e, w') \<Rightarrow> (Inr (Error (ErrorEditing path_str e)), w')
                           | (Inr r, w') \<Rightarrow> (Inr r, w')))))"

section \<open>The agent loop\<close>

text \<open>
  A turn of the conversation is the user's text, the assistant's message (text and
  tool-call requests) or a tool result. Everything the agent prints is a \<open>line\<close> of the
  console.
\<close>

record tool_call =
  tc_name :: string
  tc_arguments :: pyval

record message =
  msg_content :: "string option"
  msg_tool_calls :: "tool_call list option"

datatype turn = UserTurn string | AssistantTurn message | ToolTurn reply

datatype line =
    Banner
  | Prompt
  | ExitingChat
  | OllamaApiError
  | AssistantSays string
  | ToolCallLine string pyval
  | ToolResultLine reply
  | ToolNotFoundLine string
  | ToolFailedLine string exn
  | ArgumentsNotADictLine string pyval

record agent_state =
  conversation :: "turn list"
  needs_user_input :: bool
  fs :: world
  console :: "line list"

type_synonym tool_map = "(string \<times> (dict \<Rightarrow> world \<Rightarrow> tool_result)) list"

definition available_tools :: "path \<Rightarrow> tool_map" where
  "available_tools cwd =
     [(''read_file'', read_file_tool cwd),
      (''list_files'', list_files_tool cwd),
      (''edit_file'', edit_file_tool cwd)]"

text \<open>\<^verbatim>\<open>s.strip()\<close>: the characters Python counts as whitespace, below code point 256.\<close>

definition py_isspace :: "char \<Rightarrow> bool" where
  "py_isspace c = (of_char c \<in> {9, 10, 11, 12, 13, 28, 29, 30, 31, 32, 133, 160 :: nat})"

definition py_strip :: "string \<Rightarrow> string" where
  "py_strip s = rev (dropWhile py_isspace (rev (dropWhile py_isspace s)))"

text \<open>
  \<^verbatim>\<open>Agent.execute_tool\<close>: an unknown name is an error; an exception that leaves the tool
  function is caught and becomes an error.
\<close>

definition execute_tool ::
  "tool_map \<Rightarrow> string \<Rightarrow> dict \<Rightarrow> world \<Rightarrow> line list \<Rightarrow> reply \<times> world \<times> line list" where
  "execute_tool tm tool_name tool_input w out =
     (case map_of tm tool_name of
        None \<Rightarrow> (Error (ToolNotFound tool_name), w, out @ [ToolNotFoundLine tool_name])
      | Some f \<Rightarrow>
          (case f tool_input w of
             (Inr result_string, w') \<Rightarrow> (result_string, w', out)
           | (Inl e, w') \<Rightarrow>
               (Error (AgentFailedToExecute tool_name e), w',
                out @ [ToolFailedLine tool_name e])))"

text \<open>
  The body of the \<^verbatim>\<open>for tool_call_request in raw_tool_calls\<close> loop of \<^verbatim>\<open>Agent.run\<close>:
  the tool-result turn for one request. Arguments that are not a dictionary give an
  error turn and the tool is not called.
\<close>

definition handle_tool_call ::
  "tool_map \<Rightarrow> tool_call \<Rightarrow> world \<Rightarrow> line list \<Rightarrow> turn \<times> world \<times> line list" where
  "handle_tool_call tm tool_call_request w out =
     (let tool_name = tc_name tool_call_request;
          tool_arguments = tc_arguments tool_call_request
      in case tool_arguments of
           PDict tool_input_data \<Rightarrow>
             (case execute_tool tm tool_name tool_input_data w
                     (out @ [ToolCallLine tool_name tool_arguments]) of
                (result_string_content, w', out') \<Rightarrow>
                  (ToolTurn result_string_content, w',
                   out' @ [ToolResultLine result_string_content]))
         | _ \<Rightarrow>
             (ToolTurn (Error (ArgumentsNotADict tool_name tool_arguments)), w,
              out @ [ArgumentsNotADictLine tool_name tool_arguments]))"

text \<open>
  The loop itself, with the list \<^verbatim>\<open>tool_result_messages_for_ollama\<close> as accumulator.
\<close>

fun process_tool_calls ::
  "tool_map \<Rightarrow> tool_call list \<Rightarrow> turn list \<Rightarrow> world \<Rightarrow> line list
     \<Rightarrow> turn list \<times> world \<times> line list" where
  "process_tool_calls tm [] msgs w out = (msgs, w, out)"
| "process_tool_calls tm (tc # tcs) msgs w out =
     (case handle_tool_call tm tc w out of
        (tool_turn, w', out') \<Rightarrow> process_tool_calls tm tcs (msgs @ [tool_turn]) w' out')"

text \<open>
  What the outside world answers in one iteration of \<^verbatim>\<open>while True\<close>: \<open>user\<close> is what
  \<^verbatim>\<open>get_user_message\<close> returns if it is called (\<open>None\<close> at end of input or interrupt),
  \<open>chat\<close> is the message of the response of \<^verbatim>\<open>ollama.chat\<close> if it is called (\<open>None\<close> when
  the call raises, which \<^verbatim>\<open>run_inference\<close> reports and turns into \<^verbatim>\<open>None\<close>).
\<close>

record event =
  user :: "string option"
  chat :: "message option"

text \<open>
  \<^verbatim>\<open>Agent.get_user_message\<close> prints the prompt and returns the line read, or \<^verbatim>\<open>None\<close>
  at end of input or interrupt. \<^verbatim>\<open>Agent.run_inference\<close> returns the response, or prints
  the error and returns \<^verbatim>\<open>None\<close> when \<^verbatim>\<open>ollama.chat\<close> raises.
\<close>

definition get_user_message :: "string option \<Rightarrow> line list \<Rightarrow> string option \<times> line list" where
  "get_user_message answer out = (answer, out @ [Prompt])"

definition run_inference :: "message option \<Rightarrow> line list \<Rightarrow> message option \<times> line list" where
  "run_inference answer out =
     (case answer of
        None \<Rightarrow> (None, out @ [OllamaApiError])
      | Some response \<Rightarrow> (Some response, out))"

text \<open>The body of the loop from the call of \<^verbatim>\<open>run_inference\<close> to its end.\<close>

definition infer_and_act :: "tool_map \<Rightarrow> message option \<Rightarrow> agent_state \<Rightarrow> agent_state" where
  "infer_and_act tm answer st =
     (case run_inference answer (console st) of
        (None, out) \<Rightarrow> st\<lparr>needs_user_input := True, console := out\<rparr>
      | (Some assistant_turn_message, out) \<Rightarrow>
          (let st1 = st\<lparr>conversation := conversation st @ [AssistantTurn assistant_turn_message],
                       console := out\<rparr>;
               st2 = (case msg_content assistant_turn_message of
                        None \<Rightarrow> st1
                      | Some text \<Rightarrow>
                          if text \<noteq> []
                          then st1\<lparr>console := console st1 @ [AssistantSays (py_strip text)]\<rparr>
                          else st1)
           in case msg_tool_calls assistant_turn_message of
                None \<Rightarrow> st2\<lparr>needs_user_input := True\<rparr>
              | Some raw_tool_calls \<Rightarrow>
                  if raw_tool_calls \<noteq> [] then
                    (case process_tool_calls tm raw_tool_calls [] (fs st2) (console st2) of
                       (tool_result_messages, w', out') \<Rightarrow>
                         st2\<lparr>needs_user_input := False,
                             conversation := conversation st2 @ tool_result_messages,
                             fs := w', console := out'\<rparr>)
                  else st2\<lparr>needs_user_input := True\<rparr>))"

datatype outcome = Break agent_state | Next agent_state

text \<open>
  One iteration of \<^verbatim>\<open>while True\<close> in \<^verbatim>\<open>Agent.run\<close>: \<open>Break\<close> when the loop is left,
  \<open>Next\<close> when it goes round again (at its end or by \<^verbatim>\<open>continue\<close>).
\<close>

definition loop_body :: "tool_map \<Rightarrow> event \<Rightarrow> agent_state \<Rightarrow> outcome" where
  "loop_body tm ev st =
     (if needs_user_input st then
        (case get_user_message (user ev) (console st) of
           (None, out) \<Rightarrow> Break (st\<lparr>console := out @ [ExitingChat]\<rparr>)
         | (Some user_input, out) \<Rightarrow>
             if py_strip user_input = []
             then Next (st\<lparr>console := out\<rparr>)
             else Next (infer_and_act tm (chat ev)
                          (st\<lparr>console := out,
                              conversation := conversation st @ [UserTurn user_input]\<rparr>)))
      else Next (infer_and_act tm (chat ev) st))"

text \<open>
  \<^verbatim>\<open>Agent.run\<close> along the answers of the outside world, one \<open>event\<close> for each iteration:
  the state when the loop breaks or when the events are used up.
\<close>

fun run_loop :: "tool_map \<Rightarrow> event list \<Rightarrow> agent_state \<Rightarrow> agent_state" where
  "run_loop tm [] st = st"
| "run_loop tm (ev # evs) st =
     (case loop_body tm ev st of
        Break st' \<Rightarrow> st'
      | Next st' \<Rightarrow> run_loop tm evs st')"

definition run :: "tool_map \<Rightarrow> event list \<Rightarrow> world \<Rightarrow> agent_state" where
  "run tm evs w =
     run_loop tm evs \<lparr>conversation = [], needs_user_input = True, fs = w, console = [Banner]\<rparr>"

section \<open>Notions of the specification and example data\<close>

text \<open>A tool's result is an error payload.\<close>

definition is_error :: "exn + reply \<Rightarrow> bool" where
  "is_error r = (case r of Inr (Error e) \<Rightarrow> True | _ \<Rightarrow> False)"

definition outcome_state :: "outcome \<Rightarrow> agent_state" where
  "outcome_state oc = (case oc of Break st \<Rightarrow> st | Next st \<Rightarrow> st)"

definition is_next :: "outcome \<Rightarrow> bool" where
  "is_next oc = (case oc of Break st \<Rightarrow> False | Next st \<Rightarrow> True)"

text \<open>
  A working directory \<^verbatim>\<open>/home/u/proj\<close> holding \<^verbatim>\<open>a.txt\<close> and an empty directory
  \<^verbatim>\<open>d\<close>, beside a directory \<^verbatim>\<open>/home/u/proj2\<close> and \<^verbatim>\<open>/etc/passwd\<close>.
\<close>

definition example_cwd :: path where
  "example_cwd = [''home'', ''u'', ''proj'']"

definition example_files :: entries where
  "example_files =
     [(''home'',
       Dir [(''u'',
             Dir [(''proj'', Dir [(''a.txt'', File ''aa''), (''d'', Dir [])]),
                  (''proj2'', Dir [(''key'', File ''secret'')])])]),
      (''etc'', Dir [(''passwd'', File ''root'')])]"

definition example_world :: world where
  "example_world = \<lparr>files = example_files, oplog = []\<rparr>"

text \<open>
  A state of the loop after one user turn whose inference call failed, and an assistant
  message that asks for two tool calls.
\<close>

definition example_state :: agent_state where
  "example_state =
     \<lparr>conversation = [UserTurn ''hi''], needs_user_input = True, fs = example_world,
      console = [Banner, Prompt, OllamaApiError]\<rparr>"

definition example_message :: message where
  "example_message =
     \<lparr>msg_content = None,
      msg_tool_calls = Some
        [\<lparr>tc_name = ''edit_file'',
          tc_arguments = PDict [(''path'', PStr ''a.txt''), (''old_str'', PStr ''''),
                                (''new_str'', PStr ''b'')]\<rparr>,
         \<lparr>tc_name = ''read_file'', tc_arguments = PDict [(''path'', PStr ''a.txt'')]\<rparr>]\<rparr>"







text \<open>
  \<open>single_replacement old new original result\<close>: the result is the original with a
  single occurrence of \<open>old\<close> replaced by \<open>new\<close>.
\<close>

definition single_replacement :: "string \<Rightarrow> string \<Rightarrow> string \<Rightarrow> string \<Rightarrow> bool" where
  "single_replacement old new original result =
     list_ex (\<lambda>i. prefix old (drop i original) \<and>
                   result = take i original @ new @ drop (i + length old) original)
       [0..<Suc (length original)]"

text \<open>
  \<open>join sep segs\<close> is \<^verbatim>\<open>sep.join(segs)\<close>, and \<open>split_on sep s\<close> the pieces of \<open>s\<close> between
  the occurrences of a non-empty \<open>sep\<close> found from left to right without overlap
  (\<^verbatim>\<open>s.split(sep)\<close>).
\<close>

fun join :: "string \<Rightarrow> string list \<Rightarrow> string" where
  "join sep [] = []"
| "join sep [x] = x"
| "join sep (x # y # ys) = x @ sep @ join sep (y # ys)"




text \<open>
  The components of a path name entries: none is empty and none contains a slash.
  \<open>name_extended cwd p\<close>: the path \<open>p\<close> is, or lies below, an entry beside the working
  directory whose name is the working directory's name with more characters after it
  (\<^verbatim>\<open>/home/u/proj2\<close> for \<^verbatim>\<open>/home/u/proj\<close>).
\<close>

definition wf_path :: "path \<Rightarrow> bool" where
  "wf_path p = list_all (\<lambda>c. c \<noteq> [] \<and> CHR ''/'' \<notin> set c) p"

definition name_extended :: "path \<Rightarrow> path \<Rightarrow> bool" where
  "name_extended cwd p =
     (cwd \<noteq> [] \<and> length cwd \<le> length p \<and>
      take (length cwd - 1) p = butlast cwd \<and>
      strict_prefix (last cwd) (p ! (length cwd - 1)))"

definition slashes :: "path \<Rightarrow> string" where
  "slashes p = concat (map (\<lambda>c. CHR ''/'' # c) p)"

section \<open>Verified properties\<close>

subsection \<open>Equal old and new text\<close>

text \<open>
  C4. For every \<^verbatim>\<open>edit_file\<close> call in which \<^verbatim>\<open>old_str\<close> is provided (the key is
  there with a value other than \<^verbatim>\<open>None\<close>) and equals \<^verbatim>\<open>new_str\<close>, the tool returns
  an error payload and the world is left as it was: no file is created or modified, and
  no call to the file system is made at all.
\<close>

theorem C4_equal_strings_rejected:
  assumes "dict_get input_data ''old_str'' \<noteq> PNone"
    and "py_eq (dict_get input_data ''old_str'') (dict_get input_data ''new_str'')"
  shows "is_error (fst (edit_file_tool cwd input_data w)) \<and>
         snd (edit_file_tool cwd input_data w) = w"
  using assms by (simp add: edit_file_tool_def Let_def is_error_def)

theorem C4_equal_strings_rejected_witness:
  "dict_get [(''path'', PStr ''a.txt''), (''old_str'', PStr ''aa''), (''new_str'', PStr ''aa'')]
     ''old_str'' \<noteq> PNone \<and>
   py_eq
     (dict_get [(''path'', PStr ''a.txt''), (''old_str'', PStr ''aa''), (''new_str'', PStr ''aa'')]
        ''old_str'')
     (dict_get [(''path'', PStr ''a.txt''), (''old_str'', PStr ''aa''), (''new_str'', PStr ''aa'')]
        ''new_str'') \<and>
   is_error (fst (edit_file_tool example_cwd
     [(''path'', PStr ''a.txt''), (''old_str'', PStr ''aa''), (''new_str'', PStr ''aa'')]
     example_world)) \<and>
   snd (edit_file_tool example_cwd
     [(''path'', PStr ''a.txt''), (''old_str'', PStr ''aa''), (''new_str'', PStr ''aa'')]
     example_world) = example_world"
proof -
  let ?d = "[(''path'', PStr ''a.txt''), (''old_str'', PStr ''aa''), (''new_str'', PStr ''aa'')]"
  have h1: "dict_get ?d ''old_str'' \<noteq> PNone"
    by (simp add: dict_get_def dict_get_default_def)
  have h2: "py_eq (dict_get ?d ''old_str'') (dict_get ?d ''new_str'')"
    by (simp add: dict_get_def dict_get_default_def)
  from C4_equal_strings_rejected [OF h1 h2, of example_cwd example_world] h1 h2
  show ?thesis by blast
qed

text \<open>
  C10. \<^verbatim>\<open>edit_file\<close> compares \<^verbatim>\<open>old_str\<close> with \<^verbatim>\<open>new_str\<close> before it looks at the
  path: for every call that names a path, whatever it is and wherever it resolves, with
  \<^verbatim>\<open>old_str\<close> provided and equal to \<^verbatim>\<open>new_str\<close>, the result is the "must be
  different" error, never the access-denied one, and the world is left as it was.
\<close>

theorem C10_difference_checked_before_confinement:
  assumes "dict_get input_data ''path'' \<noteq> PNone"
    and "dict_get input_data ''old_str'' \<noteq> PNone"
    and "py_eq (dict_get input_data ''old_str'') (dict_get input_data ''new_str'')"
  shows "edit_file_tool cwd input_data w = (Inr (Error MustBeDifferent), w)"
proof -
  from assms(2,3) have "dict_get input_data ''new_str'' \<noteq> PNone"
    by (cases "dict_get input_data ''old_str''") auto
  with assms show ?thesis
    by (simp add: edit_file_tool_def Let_def)
qed

text \<open>
  The witness: \<^verbatim>\<open>/etc/passwd\<close> resolves outside the working directory \<^verbatim>\<open>/home/u/proj\<close>
  and fails the confinement test, and the call is still answered with the "must be
  different" error.
\<close>

theorem C10_difference_checked_before_confinement_witness:
  "dict_get [(''path'', PStr ''/etc/passwd''), (''old_str'', PStr ''x''), (''new_str'', PStr ''x'')]
     ''path'' \<noteq> PNone \<and>
   dict_get [(''path'', PStr ''/etc/passwd''), (''old_str'', PStr ''x''), (''new_str'', PStr ''x'')]
     ''old_str'' \<noteq> PNone \<and>
   py_eq
     (dict_get [(''path'', PStr ''/etc/passwd''), (''old_str'', PStr ''x''), (''new_str'', PStr ''x'')]
        ''old_str'')
     (dict_get [(''path'', PStr ''/etc/passwd''), (''old_str'', PStr ''x''), (''new_str'', PStr ''x'')]
        ''new_str'') \<and>
   resolve example_cwd ''/etc/passwd'' = Inr [''etc'', ''passwd''] \<and>
   \<not> within example_cwd [''etc'', ''passwd''] \<and>
   \<not> startswith_cwd example_cwd [''etc'', ''passwd''] \<and>
   edit_file_tool example_cwd
     [(''path'', PStr ''/etc/passwd''), (''old_str'', PStr ''x''), (''new_str'', PStr ''x'')]
     example_world = (Inr (Error MustBeDifferent), example_world)"
proof -
  let ?d = "[(''path'', PStr ''/etc/passwd''), (''old_str'', PStr ''x''), (''new_str'', PStr ''x'')]"
  have h1: "dict_get ?d ''path'' \<noteq> PNone"
    by (simp add: dict_get_def dict_get_default_def)
  have h2: "dict_get ?d ''old_str'' \<noteq> PNone"
    by (simp add: dict_get_def dict_get_default_def)
  have h3: "py_eq (dict_get ?d ''old_str'') (dict_get ?d ''new_str'')"
    by (simp add: dict_get_def dict_get_default_def)
  have r: "resolve example_cwd ''/etc/passwd'' = Inr [''etc'', ''passwd'']"
    by (simp add: resolve_def is_absolute_def step_def)
  have o: "\<not> within example_cwd [''etc'', ''passwd'']"
    by (simp add: within_def example_cwd_def)
  have s: "\<not> startswith_cwd example_cwd [''etc'', ''passwd'']"
    by (simp add: startswith_cwd_def path_text_def example_cwd_def)
  from C10_difference_checked_before_confinement [OF h1 h2 h3, of example_cwd example_world]
    h1 h2 h3 r o s
  show ?thesis by blast
qed

subsection \<open>Exceptions that leave a tool\<close>

text \<open>
  \<^verbatim>\<open>read_file_tool\<close> and \<^verbatim>\<open>list_files_tool\<close> do all their work inside
  \<^verbatim>\<open>try\<close>, so they return a string for every input dictionary.
\<close>

lemma read_file_tool_returns: "\<exists>r. fst (read_file_tool cwd input_data w) = Inr r"
  by (simp add: read_file_tool_def Let_def split: prod.splits sum.splits)

lemma list_files_tool_returns: "\<exists>r. fst (list_files_tool cwd input_data w) = Inr r"
  by (simp add: list_files_tool_def Let_def split: prod.splits sum.splits)

text \<open>
  C3 (the tools never raise). \<^verbatim>\<open>edit_file_tool\<close> builds and resolves the path before
  its \<^verbatim>\<open>try\<close>: on the input dictionary \<^verbatim>\<open>{"path": 5, "new_str": "x"}\<close> the call
  \<^verbatim>\<open>Path(5)\<close> raises \<^verbatim>\<open>TypeError\<close>, which leaves the function.
\<close>

theorem C3_edit_file_raises:
  "edit_file_tool cwd [(''path'', PInt 5), (''new_str'', PStr ''x'')] w = (Inl TypeError, w)"
  by (simp add: edit_file_tool_def dict_get_def dict_get_default_def)

text \<open>An exception leaves \<^verbatim>\<open>edit_file_tool\<close> only from these two calls.\<close>

lemma edit_file_tool_raises_iff:
  "fst (edit_file_tool cwd input_data w) = Inl e \<longleftrightarrow>
     dict_get input_data ''path'' \<noteq> PNone \<and> dict_get input_data ''new_str'' \<noteq> PNone \<and>
     \<not> (dict_get input_data ''old_str'' \<noteq> PNone \<and>
        py_eq (dict_get input_data ''old_str'') (dict_get input_data ''new_str'')) \<and>
     (Path (dict_get input_data ''path'') = Inl e \<or>
      (\<exists>s. Path (dict_get input_data ''path'') = Inr s \<and> resolve cwd s = Inl e))"
  by (auto simp: edit_file_tool_def Let_def split: prod.splits sum.splits)

subsection \<open>The conversation only grows\<close>

lemma infer_and_act_prefix:
  "prefix (conversation st) (conversation (infer_and_act tm r st))"
  by (auto simp: infer_and_act_def run_inference_def Let_def split: option.splits prod.splits)

lemma loop_body_prefix:
  "prefix (conversation st) (conversation (outcome_state (loop_body tm ev st)))"
proof -
  have "prefix (xs @ [x])
          (conversation (infer_and_act tm r (st\<lparr>console := c, conversation := xs @ [x]\<rparr>)))"
    for xs x r c
    using infer_and_act_prefix [of "st\<lparr>console := c, conversation := xs @ [x]\<rparr>" tm r]
    by simp
  then have "prefix xs
          (conversation (infer_and_act tm r (st\<lparr>console := c, conversation := xs @ [x]\<rparr>)))"
    for xs x r c
    using append_prefixD by blast
  then show ?thesis
    by (auto simp: loop_body_def get_user_message_def outcome_state_def infer_and_act_prefix split: option.splits)
qed

lemma run_loop_prefix:
  "prefix (conversation st) (conversation (run_loop tm evs st))"
proof (induction evs arbitrary: st)
  case Nil
  then show ?case by simp
next
  case (Cons ev evs)
  show ?case
  proof (cases "loop_body tm ev st")
    case (Break st')
    with loop_body_prefix [of st tm ev] show ?thesis
      by (simp add: outcome_state_def)
  next
    case (Next st')
    with loop_body_prefix [of st tm ev] have "prefix (conversation st) (conversation st')"
      by (simp add: outcome_state_def)
    with Cons.IH [of st'] Next show ?thesis
      by (auto intro: prefix_order.trans)
  qed
qed

text \<open>
  C9. The conversation is append-only: one iteration of the loop, and so any number of
  iterations from any state, leaves a conversation that has the earlier one as a prefix;
  what is appended is a list of turns (user, assistant or tool). \<^verbatim>\<open>Agent.run\<close> starts
  from the empty conversation.
\<close>

theorem C9_conversation_append_only:
  "prefix (conversation st) (conversation (outcome_state (loop_body tm ev st))) \<and>
   prefix (conversation st) (conversation (run_loop tm evs st)) \<and>
   conversation (run tm [] w) = []"
  by (simp add: loop_body_prefix run_loop_prefix run_def)

subsection \<open>A failed inference call\<close>

text \<open>What is printed stays printed: every step only adds lines to the console.\<close>

lemma execute_tool_console:
  "execute_tool tm n d w out = (r, w', out') \<Longrightarrow> prefix out out'"
  by (auto simp: execute_tool_def split: option.splits prod.splits sum.splits)

lemma handle_tool_call_console:
  "handle_tool_call tm tc w out = (t, w', out') \<Longrightarrow> prefix out out'"
  by (auto simp: handle_tool_call_def Let_def split: pyval.splits prod.splits
      dest!: execute_tool_console dest: append_prefixD)

lemma process_tool_calls_console:
  "process_tool_calls tm tcs msgs w out = (msgs', w', out') \<Longrightarrow> prefix out out'"
proof (induction tcs arbitrary: msgs w out)
  case Nil
  then show ?case by simp
next
  case (Cons tc tcs)
  obtain t w1 out1 where h: "handle_tool_call tm tc w out = (t, w1, out1)"
    by (cases "handle_tool_call tm tc w out") auto
  with Cons.prems have "process_tool_calls tm tcs (msgs @ [t]) w1 out1 = (msgs', w', out')"
    by simp
  then have "prefix out1 out'" by (rule Cons.IH)
  with handle_tool_call_console [OF h] show ?case
    by (rule prefix_order.trans)
qed

lemma infer_and_act_console:
  "prefix (console st) (console (infer_and_act tm r st))"
  by (auto simp: infer_and_act_def run_inference_def Let_def split: option.splits prod.splits
      dest!: process_tool_calls_console dest: append_prefixD)

text \<open>
  C7. When the inference call of an iteration fails (the iteration reaches the call:
  either no user input was needed, or the user typed a line \<open>u\<close> that is not blank),
  the failure is printed, no tool is run (the world is as before), nothing is appended
  to the conversation for the failed call (the conversation is the one that was sent:
  the old one with the user turn, if one was read), and the loop goes on with
  \<^verbatim>\<open>needs_user_input\<close> set: the next iteration prompts the user first.
\<close>

theorem C7_inference_failure:
  assumes "chat ev = None"
    and "needs_user_input st \<longrightarrow> user ev = Some u \<and> py_strip u \<noteq> []"
  shows "is_next (loop_body tm ev st) \<and>
         fs (outcome_state (loop_body tm ev st)) = fs st \<and>
         conversation (outcome_state (loop_body tm ev st)) =
           conversation st @ (if needs_user_input st then [UserTurn u] else []) \<and>
         console (outcome_state (loop_body tm ev st)) =
           console st @ (if needs_user_input st then [Prompt] else []) @ [OllamaApiError] \<and>
         needs_user_input (outcome_state (loop_body tm ev st)) \<and>
         (\<forall>ev'. prefix (console (outcome_state (loop_body tm ev st)) @ [Prompt])
                  (console (outcome_state (loop_body tm ev' (outcome_state (loop_body tm ev st))))))"
proof -
  define st' where "st' = outcome_state (loop_body tm ev st)"
  have body: "loop_body tm ev st =
      Next (st\<lparr>conversation := conversation st @ (if needs_user_input st then [UserTurn u] else []),
              console := console st @ (if needs_user_input st then [Prompt] else []) @ [OllamaApiError],
              needs_user_input := True\<rparr>)"
    using assms by (simp add: loop_body_def get_user_message_def infer_and_act_def run_inference_def)
  then have st': "st' = st\<lparr>conversation := conversation st @ (if needs_user_input st then [UserTurn u] else []),
              console := console st @ (if needs_user_input st then [Prompt] else []) @ [OllamaApiError],
              needs_user_input := True\<rparr>"
    by (simp add: st'_def outcome_state_def)
  have prompt: "prefix (console st' @ [Prompt]) (console (outcome_state (loop_body tm ev' st')))" for ev'
  proof -
    have nxt: "needs_user_input st'" by (simp add: st')
    have "prefix (console st' @ [Prompt])
            (console (infer_and_act tm r (st'\<lparr>console := console st' @ [Prompt], conversation := c\<rparr>)))" for r c
      using infer_and_act_console [of "st'\<lparr>console := console st' @ [Prompt], conversation := c\<rparr>" tm r]
      by simp
    with nxt show ?thesis
      by (auto simp: loop_body_def get_user_message_def outcome_state_def split: option.splits)
  qed
  from body st' prompt show ?thesis
    unfolding st'_def [symmetric] by (simp add: is_next_def)
qed

theorem C7_inference_failure_witness:
  "chat \<lparr>user = Some ''again'', chat = None\<rparr> = None \<and>
   needs_user_input example_state \<and>
   user \<lparr>user = Some ''again'', chat = None\<rparr> = Some ''again'' \<and>
   py_strip ''again'' \<noteq> [] \<and>
   is_next (loop_body (available_tools example_cwd) \<lparr>user = Some ''again'', chat = None\<rparr> example_state) \<and>
   fs (outcome_state (loop_body (available_tools example_cwd) \<lparr>user = Some ''again'', chat = None\<rparr> example_state)) = example_world \<and>
   conversation (outcome_state (loop_body (available_tools example_cwd) \<lparr>user = Some ''again'', chat = None\<rparr> example_state)) = [UserTurn ''hi'', UserTurn ''again''] \<and>
   console (outcome_state (loop_body (available_tools example_cwd) \<lparr>user = Some ''again'', chat = None\<rparr> example_state)) = [Banner, Prompt, OllamaApiError, Prompt, OllamaApiError] \<and>
   needs_user_input (outcome_state (loop_body (available_tools example_cwd) \<lparr>user = Some ''again'', chat = None\<rparr> example_state))"
proof -
  let ?ev = "\<lparr>user = Some ''again'', chat = None\<rparr>"
  have h1: "chat ?ev = None" by simp
  have n: "needs_user_input example_state" by (simp add: example_state_def)
  have u: "user ?ev = Some ''again''" by simp
  have s: "py_strip ''again'' \<noteq> []" by (simp add: py_strip_def py_isspace_def)
  from n u s have h2: "needs_user_input example_state \<longrightarrow> user ?ev = Some ''again'' \<and> py_strip ''again'' \<noteq> []"
    by blast
  from C7_inference_failure [OF h1 h2, of "available_tools example_cwd"] h1 n u s
  show ?thesis by (simp add: example_state_def)
qed

text \<open>
  An instance of C9: after a failed call, the user types again and the model asks for
  two tool calls; then the input ends. The conversation of the start is a prefix of the
  conversation at the end.
\<close>

theorem C9_conversation_append_only_witness:
  "prefix (conversation example_state)
     (conversation (outcome_state (loop_body (available_tools example_cwd)
        \<lparr>user = Some ''again'', chat = Some example_message\<rparr> example_state))) \<and>
   prefix (conversation example_state)
     (conversation (run_loop (available_tools example_cwd)
        [\<lparr>user = Some ''again'', chat = Some example_message\<rparr>,
         \<lparr>user = None, chat = None\<rparr>] example_state)) \<and>
   conversation (run (available_tools example_cwd) [] example_world) = []"
  by (rule C9_conversation_append_only)

subsection \<open>Tool calls\<close>







subsection \<open>Paths and the file system\<close>

text \<open>
  A location within the working directory passes the confinement test of the tools.
  Writing to an existing regular file changes that file and nothing else.
\<close>

lemma within_startswith_cwd: "within cwd p \<Longrightarrow> startswith_cwd cwd p"
proof -
  assume "within cwd p"
  then obtain r where p: "p = cwd @ r" by (auto simp: within_def prefix_def)
  show ?thesis
  proof (cases "cwd = []")
    case True
    then show ?thesis by (cases p) (simp_all add: startswith_cwd_def path_text_def)
  next
    case False
    with p show ?thesis by (simp add: startswith_cwd_def path_text_def)
  qed
qed







subsection \<open>Replacement of text\<close>

text \<open>
  \<open>single_replacement\<close> says what it should, and \<^verbatim>\<open>replace\<close> exchanges the separator
  between the pieces of the text: no piece contains \<open>old\<close>, and no occurrence of \<open>old\<close>
  starts in a piece before the one that ends it (the occurrences are the leftmost ones).
\<close>

lemma single_replacement_iff:
  "single_replacement old new original result \<longleftrightarrow>
     (\<exists>pre post. original = pre @ old @ post \<and> result = pre @ new @ post)"
proof
  assume "single_replacement old new original result"
  then obtain i where i: "i < Suc (length original)" "prefix old (drop i original)"
    "result = take i original @ new @ drop (i + length old) original"
    unfolding single_replacement_def list_ex_iff set_upt by auto
  from i(2) obtain post where "drop i original = old @ post" by (auto simp: prefix_def)
  then have "original = take i original @ old @ post" "drop (i + length old) original = post"
    by (metis append_take_drop_id, metis add.commute append_eq_conv_conj drop_drop)
  with i(3) show "\<exists>pre post. original = pre @ old @ post \<and> result = pre @ new @ post"
    by blast
next
  assume "\<exists>pre post. original = pre @ old @ post \<and> result = pre @ new @ post"
  then obtain pre post where "original = pre @ old @ post" "result = pre @ new @ post"
    by blast
  then have "length pre \<le> length original \<and> prefix old (drop (length pre) original) \<and>
     result = take (length pre) original @ new @ drop (length pre + length old) original"
    by simp
  then show "single_replacement old new original result"
    unfolding single_replacement_def list_ex_iff set_upt
    by (intro bexI [of _ "length pre"]) auto
qed



lemma join_Cons_Cons: "segs \<noteq> [] \<Longrightarrow> join sep ((c # x) # segs) = c # join sep (x # segs)"
  by (cases segs) simp_all










subsection \<open>Editing an existing file\<close>







subsection \<open>The confinement test, in terms of locations\<close>

text \<open>
  For paths whose components name entries, the text of a path begins with the text of
  the working directory exactly when the path is within the working directory or is
  \<open>name_extended\<close>: the test lets the second kind of location through.
\<close>

lemma path_text_slashes: "path_text p = (if p = [] then ''/'' else slashes p)"
  by (simp add: path_text_def slashes_def)

lemma slashes_start: "slashes p = [] \<or> (\<exists>x. slashes p = CHR ''/'' # x)"
  by (cases p) (simp_all add: slashes_def)

lemma prefix_component:
  assumes "CHR ''/'' \<notin> set a" and "y = [] \<or> (\<exists>x. y = CHR ''/'' # x)"
    and "prefix a (b @ y)"
  shows "prefix a b"
  using assms
proof (induction a arbitrary: b)
  case Nil
  then show ?case by simp
next
  case (Cons a0 a)
  show ?case
  proof (cases b)
    case Nil
    with Cons.prems show ?thesis by auto
  next
    case (Cons b0 b')
    with Cons.prems Cons.IH [of b'] show ?thesis by auto
  qed
qed

lemma equal_component:
  assumes "CHR ''/'' \<notin> set a" and "CHR ''/'' \<notin> set b"
    and "y = [] \<or> (\<exists>x. y = CHR ''/'' # x)"
    and "prefix (a @ CHR ''/'' # x) (b @ y)"
  shows "a = b \<and> prefix (CHR ''/'' # x) y"
  using assms
proof (induction a arbitrary: b)
  case Nil
  then show ?case by (cases b) auto
next
  case (Cons a0 a)
  show ?case
  proof (cases b)
    case Nil
    with Cons.prems show ?thesis by auto
  next
    case (Cons b0 b')
    with Cons.prems Cons.IH [of b'] show ?thesis by auto
  qed
qed

lemma name_extended_Cons:
  "cs \<noteq> [] \<Longrightarrow> name_extended (c # cs) (c # rest) \<longleftrightarrow> name_extended cs rest"
  by (cases cs) (auto simp: name_extended_def)

lemma slashes_prefix_cases:
  assumes "wf_path cwd" and "wf_path p" and "cwd \<noteq> []"
    and "prefix (slashes cwd) (slashes p)"
  shows "prefix cwd p \<or> name_extended cwd p"
  using assms
proof (induction cwd arbitrary: p)
  case Nil
  then show ?case by simp
next
  case (Cons c0 cs)
  from Cons.prems(1) have c0: "c0 \<noteq> []" "CHR ''/'' \<notin> set c0" and wcs: "wf_path cs"
    by (simp_all add: wf_path_def)
  obtain c rest where p: "p = c # rest"
    using Cons.prems(4) by (cases p) (auto simp: slashes_def)
  from Cons.prems(2) p have c: "CHR ''/'' \<notin> set c" and wrest: "wf_path rest"
    by (simp_all add: wf_path_def)
  from Cons.prems(4) p have pre: "prefix (c0 @ slashes cs) (c @ slashes rest)"
    by (simp add: slashes_def)
  show ?case
  proof (cases "cs = []")
    case True
    with pre have "prefix c0 (c @ slashes rest)" by (simp add: slashes_def)
    from prefix_component [OF c0(2) slashes_start this] have "prefix c0 c" .
    then have "c0 = c \<or> strict_prefix c0 c" by (auto simp: strict_prefix_def)
    with True p show ?thesis by (auto simp: name_extended_def)
  next
    case False
    then obtain x where x: "slashes cs = CHR ''/'' # x"
      using slashes_start [of cs] by (cases cs) (auto simp: slashes_def)
    with pre have "prefix (c0 @ CHR ''/'' # x) (c @ slashes rest)" by simp
    from equal_component [OF c0(2) c slashes_start this] x
    have eq: "c0 = c" and "prefix (slashes cs) (slashes rest)" by simp_all
    from Cons.IH [OF wcs wrest False this(2)]
    have "prefix cs rest \<or> name_extended cs rest" .
    with eq p False show ?thesis by (auto simp: name_extended_Cons)
  qed
qed

lemma name_extended_slashes:
  assumes "name_extended cwd p"
  shows "prefix (slashes cwd) (slashes p)"
proof -
  from assms have ne: "cwd \<noteq> []" and len: "length cwd \<le> length p"
    and tk: "take (length cwd - 1) p = butlast cwd"
    and sp: "prefix (last cwd) (p ! (length cwd - 1))"
    by (auto simp: name_extended_def strict_prefix_def)
  define n where "n = length cwd - 1"
  from ne len have n: "n < length p" by (cases cwd) (auto simp: n_def)
  then have "p = take n p @ (p ! n) # drop (Suc n) p"
    by (simp add: id_take_nth_drop)
  with tk have p: "p = butlast cwd @ (p ! n) # drop (Suc n) p" by (simp add: n_def)
  from sp obtain z where z: "p ! n = last cwd @ z" by (auto simp: prefix_def n_def)
  from ne have cwd: "cwd = butlast cwd @ [last cwd]" by simp
  have "slashes cwd = slashes (butlast cwd) @ CHR ''/'' # last cwd"
    by (subst cwd) (simp add: slashes_def)
  moreover have "slashes p = slashes (butlast cwd) @ CHR ''/'' # last cwd @ z @ slashes (drop (Suc n) p)"
    by (subst p) (simp add: slashes_def z)
  ultimately show ?thesis by (simp add: prefix_def)
qed

lemma startswith_cwd_iff:
  assumes "wf_path cwd" and "wf_path p"
  shows "startswith_cwd cwd p \<longleftrightarrow> within cwd p \<or> name_extended cwd p"
proof (cases "cwd = []")
  case True
  then show ?thesis
    by (cases p) (simp_all add: startswith_cwd_def within_def path_text_def)
next
  case False
  show ?thesis
  proof (cases "p = []")
    case True
    from False assms(1) obtain c0 cs where "cwd = c0 # cs" "c0 \<noteq> []"
      by (cases cwd) (auto simp: wf_path_def)
    then have "\<not> prefix (path_text cwd) ''/''"
      by (cases c0) (simp_all add: path_text_def)
    with True False show ?thesis
      by (simp add: startswith_cwd_def within_def name_extended_def path_text_def)
  next
    case pne: False
    show ?thesis
    proof
      assume "startswith_cwd cwd p"
      with False pne have "prefix (slashes cwd) (slashes p)"
        by (simp add: startswith_cwd_def path_text_slashes)
      from slashes_prefix_cases [OF assms False this] show "within cwd p \<or> name_extended cwd p"
        by (simp add: within_def)
    next
      assume "within cwd p \<or> name_extended cwd p"
      then show "startswith_cwd cwd p"
      proof
        assume "within cwd p"
        then show ?thesis by (rule within_startswith_cwd)
      next
        assume "name_extended cwd p"
        from name_extended_slashes [OF this] False pne show ?thesis
          by (simp add: startswith_cwd_def path_text_slashes)
      qed
    qed
  qed
qed

lemma split_slash_no_slash: "c \<in> set (split_slash s) \<Longrightarrow> CHR ''/'' \<notin> set c"
  by (induction s arbitrary: c) (auto split: list.splits if_splits)

lemma wf_path_butlast: "wf_path p \<Longrightarrow> wf_path (butlast p)"
  by (auto simp: wf_path_def list_all_iff dest: in_set_butlastD)

lemma wf_path_foldl_step:
  "wf_path acc \<Longrightarrow> \<forall>c \<in> set cs. CHR ''/'' \<notin> set c \<Longrightarrow> wf_path (foldl step acc cs)"
proof (induction cs arbitrary: acc)
  case Nil
  then show ?case by simp
next
  case (Cons c cs)
  from Cons.prems have "wf_path (step acc c)"
    by (auto simp: step_def wf_path_butlast) (simp add: wf_path_def)
  with Cons show ?case by simp
qed

lemma wf_path_resolve: "wf_path cwd \<Longrightarrow> resolve cwd s = Inr p \<Longrightarrow> wf_path p"
proof -
  assume w: "wf_path cwd" and r: "resolve cwd s = Inr p"
  have "wf_path []" by (simp add: wf_path_def)
  with w have "wf_path (if is_absolute s then [] else cwd)" by simp
  from wf_path_foldl_step [OF this, of "split_slash s"] split_slash_no_slash [of _ s] r
  show ?thesis by (auto simp: resolve_def split: if_splits)
qed

subsection \<open>Creating a file\<close>














subsection \<open>Paths outside the working directory\<close>

text \<open>
  C1, as stated, fails in two ways. The tools compare the text of the two paths, so in
  the working directory \<^verbatim>\<open>/home/u/proj\<close> the path \<^verbatim>\<open>../proj2/key\<close>, which resolves to
  \<^verbatim>\<open>/home/u/proj2/key\<close> outside of it, passes the test and \<^verbatim>\<open>read_file\<close> returns the
  file's content. And \<^verbatim>\<open>edit_file\<close> validates its arguments first: with \<^verbatim>\<open>old_str\<close>
  equal to \<^verbatim>\<open>new_str\<close> the path \<^verbatim>\<open>/etc/passwd\<close> is answered with the "must be
  different" error, not the access-denied one (C10).
\<close>

theorem C1_counterexample:
  "resolve example_cwd ''../proj2/key'' = Inr [''home'', ''u'', ''proj2'', ''key''] \<and>
   \<not> within example_cwd [''home'', ''u'', ''proj2'', ''key''] \<and>
   name_extended example_cwd [''home'', ''u'', ''proj2'', ''key''] \<and>
   read_file_tool example_cwd [(''path'', PStr ''../proj2/key'')] example_world =
     (Inr (Content ''secret''),
      \<lparr>files = example_files,
       oplog = [OpIsFile [''home'', ''u'', ''proj2'', ''key''],
                OpRead [''home'', ''u'', ''proj2'', ''key'']]\<rparr>) \<and>
   resolve example_cwd ''/etc/passwd'' = Inr [''etc'', ''passwd''] \<and>
   \<not> within example_cwd [''etc'', ''passwd''] \<and>
   edit_file_tool example_cwd
     [(''path'', PStr ''/etc/passwd''), (''old_str'', PStr ''x''), (''new_str'', PStr ''x'')]
     example_world = (Inr (Error MustBeDifferent), example_world)"
  by code_simp

text \<open>
  C1, amended. Let the components of the working directory name entries (none empty,
  none with a slash). For every call to one of the three tools whose path argument is a
  string that resolves to a location outside the working directory, other than a
  location at or below an entry beside the working directory whose name begins with
  the working directory's name, the tool makes no call to the file system after
  resolving the path (the world, with its log of calls, is as before) and returns an
  error payload: the access-denied one, except that \<^verbatim>\<open>edit_file\<close> returns its
  invalid-input errors when \<^verbatim>\<open>new_str\<close> is missing, or when \<^verbatim>\<open>old_str\<close> is provided
  and equals \<^verbatim>\<open>new_str\<close>.
\<close>

theorem C1_outside_paths_rejected:
  assumes "wf_path cwd"
    and "dict_get input_data ''path'' = PStr s"
    and "resolve cwd s = Inr p"
    and "\<not> within cwd p"
    and "\<not> name_extended cwd p"
  shows "read_file_tool cwd input_data w = (Inr (Error (AccessNotAllowed (PStr s))), w) \<and>
         list_files_tool cwd input_data w = (Inr (Error (AccessNotAllowed (PStr s))), w) \<and>
         edit_file_tool cwd input_data w =
           (Inr (Error
              (if dict_get input_data ''new_str'' = PNone then PathAndNewStrRequired
               else if dict_get input_data ''old_str'' \<noteq> PNone \<and>
                       py_eq (dict_get input_data ''old_str'') (dict_get input_data ''new_str'')
               then MustBeDifferent
               else AccessNotAllowed (PStr s))), w)"
proof -
  from wf_path_resolve [OF assms(1,3)] have "wf_path p" .
  with startswith_cwd_iff [OF assms(1)] assms(4,5) have ns: "\<not> startswith_cwd cwd p"
    by simp
  have "s \<noteq> []"
  proof
    assume "s = []"
    with assms(3) have "p = cwd" by (simp add: resolve_def is_absolute_def step_def)
    with assms(4) show False by (simp add: within_def)
  qed
  with assms(2,3) ns
  have "read_file_tool cwd input_data w = (Inr (Error (AccessNotAllowed (PStr s))), w)"
    by (simp add: read_file_tool_def read_file_try_def)
  moreover from assms(2) have "dict_get_default input_data ''path'' (PStr ''.'') = PStr s"
    by (simp add: dict_get_def dict_get_default_def split: option.splits)
  with assms(3) ns
  have "list_files_tool cwd input_data w = (Inr (Error (AccessNotAllowed (PStr s))), w)"
    by (simp add: list_files_tool_def list_files_try_def)
  moreover from assms(2,3) ns
  have "edit_file_tool cwd input_data w =
           (Inr (Error
              (if dict_get input_data ''new_str'' = PNone then PathAndNewStrRequired
               else if dict_get input_data ''old_str'' \<noteq> PNone \<and>
                       py_eq (dict_get input_data ''old_str'') (dict_get input_data ''new_str'')
               then MustBeDifferent
               else AccessNotAllowed (PStr s))), w)"
    by (simp add: edit_file_tool_def Let_def)
  ultimately show ?thesis by blast
qed

theorem C1_outside_paths_rejected_witness:
  "wf_path example_cwd \<and>
   dict_get [(''path'', PStr ''/etc/passwd''), (''new_str'', PStr ''x'')] ''path'' = PStr ''/etc/passwd'' \<and>
   resolve example_cwd ''/etc/passwd'' = Inr [''etc'', ''passwd''] \<and>
   \<not> within example_cwd [''etc'', ''passwd''] \<and>
   \<not> name_extended example_cwd [''etc'', ''passwd''] \<and>
   read_file_tool example_cwd [(''path'', PStr ''/etc/passwd''), (''new_str'', PStr ''x'')]
     example_world = (Inr (Error (AccessNotAllowed (PStr ''/etc/passwd''))), example_world) \<and>
   list_files_tool example_cwd [(''path'', PStr ''/etc/passwd''), (''new_str'', PStr ''x'')]
     example_world = (Inr (Error (AccessNotAllowed (PStr ''/etc/passwd''))), example_world) \<and>
   edit_file_tool example_cwd [(''path'', PStr ''/etc/passwd''), (''new_str'', PStr ''x'')]
     example_world = (Inr (Error (AccessNotAllowed (PStr ''/etc/passwd''))), example_world)"
proof -
  let ?d = "[(''path'', PStr ''/etc/passwd''), (''new_str'', PStr ''x'')]"
  have h1: "wf_path example_cwd" by code_simp
  have h2: "dict_get ?d ''path'' = PStr ''/etc/passwd''" by code_simp
  have h3: "resolve example_cwd ''/etc/passwd'' = Inr [''etc'', ''passwd'']" by code_simp
  have h4: "\<not> within example_cwd [''etc'', ''passwd'']" by code_simp
  have h5: "\<not> name_extended example_cwd [''etc'', ''passwd'']" by code_simp
  have n: "dict_get ?d ''new_str'' = PStr ''x''" "dict_get ?d ''old_str'' = PNone"
    by (simp_all add: dict_get_def dict_get_default_def)
  from C1_outside_paths_rejected [OF h1 h2 h3 h4 h5, of example_world] n h1 h2 h3 h4 h5
  show ?thesis by simp
qed

end
